theory Spec2Isabelle
  imports Complex_Main "HOL-Library.Sublist"
begin

section \<open>The SSO middleware of openhands/server/sso\_middleware.py\<close>

text \<open>
  A Python \<open>str\<close> is a list of characters with code points below 256 (what Starlette
  gives for header and cookie values, which it decodes as Latin-1). A parsed JSON value
  is a value of \<open>json\<close>; Python's \<open>None\<close> is \<open>JNull\<close>, as \<open>json.loads\<close> has it.
  \<open>time.monotonic()\<close> readings are real numbers (seconds).
\<close>

subsection \<open>Strings\<close>

definition lower_char :: "char \<Rightarrow> char" where
  \<comment> \<open>\<open>str.lower\<close> on one Latin-1 character\<close>
  "lower_char c =
     (let n = (of_char c :: nat)
      in if (65 \<le> n \<and> n \<le> 90) \<or> (192 \<le> n \<and> n \<le> 222 \<and> n \<noteq> 215)
         then char_of (n + 32) else c)"

definition py_lower :: "string \<Rightarrow> string" where
  "py_lower s = map lower_char s"

definition py_isspace :: "char \<Rightarrow> bool" where
  \<comment> \<open>the characters \<open>str.strip()\<close> removes, among the code points below 256\<close>
  "py_isspace c =
     (let n = (of_char c :: nat)
      in (9 \<le> n \<and> n \<le> 13) \<or> (28 \<le> n \<and> n \<le> 32) \<or> n = 133 \<or> n = 160)"

definition py_strip :: "string \<Rightarrow> string" where
  "py_strip s = rev (dropWhile py_isspace (rev (dropWhile py_isspace s)))"

fun py_contains :: "string \<Rightarrow> string \<Rightarrow> bool" where
  \<comment> \<open>\<open>sub in s\<close>\<close>
  "py_contains sub [] = (sub = [])"
| "py_contains sub (c # cs) = (prefix sub (c # cs) \<or> py_contains sub cs)"

subsection \<open>JSON values and dictionaries\<close>

datatype json =
    JNull
  | JBool bool
  | JNum real
  | JStr string
  | JArr "json list"
  | JObj "(string \<times> json) list"

fun py_truthy :: "json \<Rightarrow> bool" where
  "py_truthy JNull = False"
| "py_truthy (JBool b) = b"
| "py_truthy (JNum n) = (n \<noteq> 0)"
| "py_truthy (JStr s) = (s \<noteq> [])"
| "py_truthy (JArr xs) = (xs \<noteq> [])"
| "py_truthy (JObj kvs) = (kvs \<noteq> [])"

definition dict_get :: "(string \<times> json) list \<Rightarrow> string \<Rightarrow> json \<Rightarrow> json" where
  \<comment> \<open>\<open>d.get(k, default)\<close> on the items of a dict\<close>
  "dict_get kvs k d = (case map_of kvs k of None \<Rightarrow> d | Some v \<Rightarrow> v)"

subsection \<open>Configuration\<close>

record config =
  SSO_ISSUER :: string
  SSO_CLIENT_ID :: string
  SSO_CLIENT_SECRET :: string
  SSO_CALLBACK_URL :: string

definition default_config :: config where
  "default_config =
     \<lparr> SSO_ISSUER = ''https://login.orcest.ai'',
       SSO_CLIENT_ID = ''maestrist'',
       SSO_CLIENT_SECRET = '''',
       SSO_CALLBACK_URL = ''https://agent.orcest.ai/auth/callback'' \<rparr>"

definition SSO_COOKIE_NAME :: string where
  "SSO_COOKIE_NAME = ''maestrist_sso_token''"

definition TOKEN_CACHE_TTL_SECONDS :: real where
  "TOKEN_CACHE_TTL_SECONDS = 300"

definition UNAUTHENTICATED_PATH_PREFIXES :: "string list" where
  "UNAUTHENTICATED_PATH_PREFIXES =
     [''/health'', ''/alive'', ''/auth/callback'', ''/auth/logout'',
      ''/api/litellm-models'', ''/api/options/models'']"

definition UNAUTHENTICATED_EXACT_PATHS :: "string set" where
  "UNAUTHENTICATED_EXACT_PATHS = {''/health'', ''/alive''}"

subsection \<open>Path classification\<close>

fun starts_with_any :: "string \<Rightarrow> string list \<Rightarrow> bool" where
  \<comment> \<open>the \<open>for prefix in ...: if path.startswith(prefix): return True\<close> loop\<close>
  "starts_with_any p [] = False"
| "starts_with_any p (pre # pres) = (if prefix pre p then True else starts_with_any p pres)"

definition is_public_path :: "string \<Rightarrow> bool" where
  "is_public_path p =
     (if p \<in> UNAUTHENTICATED_EXACT_PATHS then True
      else starts_with_any p UNAUTHENTICATED_PATH_PREFIXES)"

subsection \<open>Requests and responses\<close>

record request =
  path :: string
  url :: string
  cookies :: "string \<rightharpoonup> string"
  headers :: "string \<rightharpoonup> string"
  query_params :: "string \<rightharpoonup> string"
  sso_user :: "(string \<times> json) list option"

record set_cookie =
  key :: string
  cvalue :: json
  httponly :: bool
  secure :: bool
  samesite :: string
  max_age :: int
  cpath :: string

datatype response =
    CallNext request
  | RedirectResponse string int "set_cookie list"
  | JSONResponse int json

datatype exn = JSONDecodeError | AttributeError

subsection \<open>Credential extraction\<close>

fun str_truthy :: "string option \<Rightarrow> bool" where
  \<comment> \<open>truth value of a \<open>str | None\<close>: \<open>None\<close> and the empty string are false;
      below, \<open>the\<close> is applied to such a value only where it is true\<close>
  "str_truthy None = False"
| "str_truthy (Some s) = (s \<noteq> [])"

definition extract_token :: "request \<Rightarrow> string option" where
  "extract_token req =
     (let token = cookies req SSO_COOKIE_NAME
      in if str_truthy token then token
         else
          (let auth_header = (case headers req ''authorization'' of None \<Rightarrow> [] | Some h \<Rightarrow> h)
           in if prefix ''bearer '' (py_lower auth_header)
              then Some (py_strip (drop 7 auth_header))
              else None))"

definition is_browser_request :: "request \<Rightarrow> bool" where
  "is_browser_request req =
     (let accept = (case headers req ''accept'' of None \<Rightarrow> [] | Some a \<Rightarrow> a)
      in py_contains ''text/html'' accept)"

subsection \<open>URL encoding (urllib.parse.urlencode)\<close>

definition hex_digit :: "nat \<Rightarrow> char" where
  "hex_digit n = ''0123456789ABCDEF'' ! (n mod 16)"

definition percent_byte :: "nat \<Rightarrow> string" where
  "percent_byte b = [CHR ''%'', hex_digit (b div 16), hex_digit b]"

definition unreserved :: "char \<Rightarrow> bool" where
  "unreserved c =
     (c \<in> set ''ABCDEFGHIJKLMNOPQRSTUVWXYZabcdefghijklmnopqrstuvwxyz0123456789_.-~'')"

definition quote_plus_char :: "char \<Rightarrow> string" where
  \<comment> \<open>a character outside the unreserved set is percent-encoded from its UTF-8 bytes\<close>
  "quote_plus_char c =
     (let n = (of_char c :: nat)
      in if unreserved c then [c]
         else if c = CHR '' '' then ''+''
         else if n < 128 then percent_byte n
         else percent_byte (192 + n div 64) @ percent_byte (128 + n mod 64))"

definition quote_plus :: "string \<Rightarrow> string" where
  "quote_plus s = concat (map quote_plus_char s)"

fun join_amp :: "string list \<Rightarrow> string" where
  "join_amp [] = []"
| "join_amp [x] = x"
| "join_amp (x # y # ys) = x @ ''&'' @ join_amp (y # ys)"

definition urlencode :: "(string \<times> string) list \<Rightarrow> string" where
  "urlencode params = join_amp (map (\<lambda>(k, v). quote_plus k @ ''='' @ quote_plus v) params)"

definition build_sso_login_url :: "config \<Rightarrow> string option \<Rightarrow> string" where
  "build_sso_login_url cfg redirect_after =
     (let params = [(''response_type'', ''code''),
                    (''client_id'', SSO_CLIENT_ID cfg),
                    (''redirect_uri'', SSO_CALLBACK_URL cfg),
                    (''scope'', ''openid profile email'')];
          params = (if str_truthy redirect_after
                    then params @ [(''state'', the redirect_after)] else params)
      in SSO_ISSUER cfg @ ''/authorize?'' @ urlencode params)"

definition authentication_required_message :: string where
  \<comment> \<open>the f-string of the 401 body; \<open>CHR 0x22\<close> is the double quote\<close>
  "authentication_required_message =
     ''SSO authentication is required. Provide a valid token via ''
     @ ''the '' @ [CHR 0x22] @ SSO_COOKIE_NAME @ [CHR 0x22]
     @ '' cookie or an Authorization: Bearer header.''"

definition unauthenticated_response :: "config \<Rightarrow> request \<Rightarrow> response" where
  "unauthenticated_response cfg req =
     (if is_browser_request req
      then RedirectResponse (build_sso_login_url cfg (Some (url req))) 302 []
      else JSONResponse 401
             (JObj [(''error'', JStr ''authentication_required''),
                    (''message'', JStr authentication_required_message)]))"

subsection \<open>The verification cache and the identity provider\<close>

text \<open>
  The module's global \<open>_token_cache\<close> is the field \<open>token_cache\<close> of the state; the
  field \<open>provider_calls\<close> records every POST sent to the identity provider, in order.
  What the environment answers during one call is a \<open>world\<close>: the readings of
  \<open>time.monotonic()\<close> in \<open>_cache_cleanup\<close>, at the expiry test and at the insertion, and
  the outcome of the POST.
\<close>

datatype provider_call =
    PostVerify string
  | PostToken "(string \<times> string) list"

datatype upstream =
    HTTPError
  | Response int "json option"

text \<open>
  \<open>HTTPError\<close>: the POST raised \<open>httpx.HTTPError\<close> (a timeout, a connection error).
  \<open>Response status body\<close>: a response arrived; \<open>body\<close> is what \<open>resp.json()\<close> returns,
  \<open>None\<close> when the body is not valid JSON and \<open>resp.json()\<close> raises
  \<open>json.JSONDecodeError\<close>.
\<close>

record world =
  t_cleanup :: real
  t_check :: real
  t_insert :: real
  reply :: upstream

record state =
  token_cache :: "string \<rightharpoonup> json \<times> real"
  provider_calls :: "provider_call list"

definition expired_keys :: "real \<Rightarrow> (string \<rightharpoonup> json \<times> real) \<Rightarrow> string set" where
  "expired_keys now c = {k. case c k of None \<Rightarrow> False | Some (_, expiry) \<Rightarrow> expiry \<le> now}"

definition cache_cleanup :: "real \<Rightarrow> (string \<rightharpoonup> json \<times> real) \<Rightarrow> (string \<rightharpoonup> json \<times> real)" where
  "cache_cleanup now c = c |` (- expired_keys now c)"

definition cache_hit :: "world \<Rightarrow> string \<Rightarrow> (string \<rightharpoonup> json \<times> real) \<Rightarrow> json option" where
  \<comment> \<open>\<open>cached = _token_cache.get(token)\<close> and the test \<open>time.monotonic() < expiry\<close>\<close>
  "cache_hit w token c =
     (case c token of
        None \<Rightarrow> None
      | Some (payload, expiry) \<Rightarrow> if t_check w < expiry then Some payload else None)"

definition verify_token :: "world \<Rightarrow> string \<Rightarrow> state \<Rightarrow> (exn + json) \<times> state" where
  "verify_token w token s =
     (let s1 = s\<lparr>token_cache := cache_cleanup (t_cleanup w) (token_cache s)\<rparr>
      in case cache_hit w token (token_cache s1) of
           Some payload \<Rightarrow> (Inr payload, s1)
         | None \<Rightarrow>
            (let s2 = s1\<lparr>provider_calls := provider_calls s1 @ [PostVerify token]\<rparr>
             in case reply w of
                  HTTPError \<Rightarrow> (Inr JNull, s2)
                | Response status_code body \<Rightarrow>
                   if status_code = 200
                   then (case body of
                           None \<Rightarrow> (Inl JSONDecodeError, s2)
                         | Some payload \<Rightarrow>
                            (Inr payload,
                             s2\<lparr>token_cache := (token_cache s2)
                                  (token \<mapsto> (payload, t_insert w + TOKEN_CACHE_TTL_SECONDS))\<rparr>))
                   else (Inr JNull, s2\<lparr>token_cache := (token_cache s2)(token := None)\<rparr>)))"

subsection \<open>The middleware\<close>

definition dispatch :: "config \<Rightarrow> world \<Rightarrow> request \<Rightarrow> state \<Rightarrow> (exn + response) \<times> state" where
  "dispatch cfg w req s =
     (if is_public_path (path req) then (Inr (CallNext req), s)
      else case extract_token req of
             None \<Rightarrow> (Inr (unauthenticated_response cfg req), s)
           | Some token \<Rightarrow>
              (case verify_token w token s of
                 (Inl e, s') \<Rightarrow> (Inl e, s')
               | (Inr JNull, s') \<Rightarrow> (Inr (unauthenticated_response cfg req), s')
               | (Inr (JObj user_payload), s') \<Rightarrow>
                  (Inr (CallNext (req\<lparr>sso_user := Some
                          [(''sub'', dict_get user_payload ''sub'' (JStr [])),
                           (''name'', dict_get user_payload ''name'' (JStr [])),
                           (''role'', dict_get user_payload ''role'' (JStr [])),
                           (''email'', dict_get user_payload ''email'' (JStr []))]\<rparr>)), s')
               | (Inr _, s') \<Rightarrow> (Inl AttributeError, s')))"

subsection \<open>The callback route\<close>

definition sso_callback :: "config \<Rightarrow> upstream \<Rightarrow> request \<Rightarrow> state \<Rightarrow> (exn + response) \<times> state" where
  "sso_callback cfg up req s =
     (let code = query_params req ''code'';
          state = query_params req ''state''
      in if \<not> str_truthy code
         then (Inr (JSONResponse 400
                      (JObj [(''error'', JStr ''missing_code''),
                             (''message'', JStr ''No authorization code provided.'')])), s)
         else
          (let token_data = [(''grant_type'', ''authorization_code''),
                             (''code'', the code),
                             (''redirect_uri'', SSO_CALLBACK_URL cfg),
                             (''client_id'', SSO_CLIENT_ID cfg),
                             (''client_secret'', SSO_CLIENT_SECRET cfg)];
               s1 = s\<lparr>provider_calls := provider_calls s @ [PostToken token_data]\<rparr>
           in case up of
                HTTPError \<Rightarrow>
                  (Inr (JSONResponse 502
                          (JObj [(''error'', JStr ''sso_unavailable''),
                                 (''message'', JStr ''Unable to reach SSO server.'')])), s1)
              | Response status_code body \<Rightarrow>
                 if status_code \<noteq> 200
                 then (Inr (JSONResponse 401
                              (JObj [(''error'', JStr ''token_exchange_failed''),
                                     (''message'', JStr ''SSO token exchange failed.'')])), s1)
                 else
                  (case body of
                     None \<Rightarrow> (Inl JSONDecodeError, s1)
                   | Some (JObj token_response) \<Rightarrow>
                      (let access_token = dict_get token_response ''access_token'' (JStr [])
                       in if \<not> py_truthy access_token
                          then (Inr (JSONResponse 401
                                       (JObj [(''error'', JStr ''no_access_token''),
                                              (''message'', JStr ''No access token in SSO response.'')])), s1)
                          else
                           (let redirect_url = (if str_truthy state then the state else ''/'')
                            in (Inr (RedirectResponse redirect_url 302
                                       [\<lparr> key = SSO_COOKIE_NAME, cvalue = access_token,
                                          httponly = True, secure = True, samesite = ''lax'',
                                          max_age = 86400, cpath = ''/'' \<rparr>]), s1)))
                   | Some _ \<Rightarrow> (Inl AttributeError, s1))))"

subsection \<open>Sequences of verifications\<close>

text \<open>
  Requests are served one after the other on the shared cache: a call that raises leaves
  the cache as it was at the raise.
\<close>

fun verify_many :: "(world \<times> string) list \<Rightarrow> state \<Rightarrow> state" where
  "verify_many [] s = s"
| "verify_many ((w, token) # calls) s = verify_many calls (snd (verify_token w token s))"

subsection \<open>Sample inputs\<close>

definition empty_state :: state where
  "empty_state = \<lparr> token_cache = Map.empty, provider_calls = [] \<rparr>"

definition world_at :: "real \<Rightarrow> upstream \<Rightarrow> world" where
  "world_at t r = \<lparr> t_cleanup = t, t_check = t, t_insert = t, reply = r \<rparr>"

definition alice :: json where
  "alice = JObj [(''sub'', JStr ''u-1''), (''name'', JStr ''Alice''),
                 (''role'', JStr ''admin''), (''email'', JStr ''alice@example.org'')]"

definition no_credentials :: request where
  "no_credentials =
     \<lparr> path = ''/healthz'', url = ''https://agent.orcest.ai/healthz'',
       cookies = Map.empty, headers = Map.empty, query_params = Map.empty,
       sso_user = None \<rparr>"

definition validated_by :: "(world \<times> string) list \<Rightarrow> string \<Rightarrow> json \<Rightarrow> real \<Rightarrow> bool" where
  \<comment> \<open>among the calls made, one for \<open>k\<close> received 200 with payload \<open>p\<close> and inserted it with expiry \<open>e\<close>\<close>
  "validated_by hist k p e =
     (\<exists>(w, token) \<in> set hist. token = k \<and> reply w = Response 200 (Some p)
        \<and> e = t_insert w + TOKEN_CACHE_TTL_SECONDS)"

definition two_verified :: "(world \<times> string) list" where
  "two_verified =
     [(world_at 0 (Response 200 (Some alice)), ''tok1''),
      (world_at 10 (Response 200 (Some JNull)), ''tok2'')]"

definition stale_state :: state where
  "stale_state = \<lparr> token_cache = [''tok1'' \<mapsto> (alice, 100)], provider_calls = [] \<rparr>"

definition empty_cookie_request :: request where
  "empty_cookie_request =
     \<lparr> path = ''/api/private'', url = ''https://agent.orcest.ai/api/private'',
       cookies = [SSO_COOKIE_NAME \<mapsto> ''''], headers = [''authorization'' \<mapsto> ''Bearer abc''],
       query_params = Map.empty, sso_user = None \<rparr>"

definition cookie_and_bearer :: request where
  "cookie_and_bearer =
     \<lparr> path = ''/api/private'', url = ''https://agent.orcest.ai/api/private'',
       cookies = [SSO_COOKIE_NAME \<mapsto> ''tok1''], headers = [''authorization'' \<mapsto> ''Bearer abc''],
       query_params = Map.empty, sso_user = None \<rparr>"

definition bearer_only :: request where
  "bearer_only =
     \<lparr> path = ''/api/private'', url = ''https://agent.orcest.ai/api/private'',
       cookies = Map.empty, headers = [''authorization'' \<mapsto> ''bEaReR  abc ''],
       query_params = Map.empty, sso_user = None \<rparr>"

definition browser_request :: request where
  "browser_request =
     \<lparr> path = ''/api/private'', url = ''https://agent.orcest.ai/api/private'',
       cookies = Map.empty,
       headers = [''accept'' \<mapsto> ''text/html,application/xhtml+xml''],
       query_params = Map.empty, sso_user = None \<rparr>"

definition api_request :: request where
  "api_request =
     \<lparr> path = ''/api/private'', url = ''https://agent.orcest.ai/api/private'',
       cookies = [SSO_COOKIE_NAME \<mapsto> ''tok1''],
       headers = [''accept'' \<mapsto> ''application/json''],
       query_params = Map.empty, sso_user = None \<rparr>"

definition bob_without_sub :: "(string \<times> json) list" where
  "bob_without_sub = [(''name'', JStr ''Bob''), (''role'', JStr ''user'')]"

definition blank_bearer :: request where
  "blank_bearer =
     \<lparr> path = ''/api/private'', url = ''https://agent.orcest.ai/api/private'',
       cookies = Map.empty, headers = [''authorization'' \<mapsto> ''Bearer   ''],
       query_params = Map.empty, sso_user = None \<rparr>"

definition callback_request :: request where
  "callback_request =
     \<lparr> path = ''/auth/callback'', url = ''https://agent.orcest.ai/auth/callback?code=abc123'',
       cookies = Map.empty, headers = Map.empty,
       query_params = [''code'' \<mapsto> ''abc123''], sso_user = None \<rparr>"




section \<open>Basic facts\<close>

lemma py_contains_sublist: "py_contains sub s = sublist sub s"
  by (induction s) (auto simp: sublist_Cons_right)

lemma starts_with_any_iff: "starts_with_any p pres = (\<exists>pre \<in> set pres. prefix pre p)"
  by (induction pres) auto

lemma is_public_path_iff:
  "is_public_path p =
     (p \<in> UNAUTHENTICATED_EXACT_PATHS \<or> (\<exists>pre \<in> set UNAUTHENTICATED_PATH_PREFIXES. prefix pre p))"
  by (simp add: is_public_path_def starts_with_any_iff)

subsection \<open>One verification\<close>

lemma cache_cleanup_apply:
  "cache_cleanup now c k =
     (case c k of None \<Rightarrow> None | Some (p, e) \<Rightarrow> if e \<le> now then None else Some (p, e))"
  by (auto simp: cache_cleanup_def expired_keys_def restrict_map_def split: option.splits)

lemma cache_hit_cleanup:
  "cache_hit w token (cache_cleanup (t_cleanup w) c) =
     (case c token of
        None \<Rightarrow> None
      | Some (p, e) \<Rightarrow> if t_cleanup w < e \<and> t_check w < e then Some p else None)"
  by (auto simp: cache_hit_def cache_cleanup_apply split: option.splits)


lemma verify_token_calls:
  "provider_calls (snd (verify_token w token s)) =
     (case cache_hit w token (cache_cleanup (t_cleanup w) (token_cache s)) of
        Some _ \<Rightarrow> provider_calls s
      | None \<Rightarrow> provider_calls s @ [PostVerify token])"
  by (simp add: verify_token_def Let_def split: option.splits upstream.splits)

lemma verify_token_cache:
  "token_cache (snd (verify_token w token s)) k =
     (case cache_hit w token (cache_cleanup (t_cleanup w) (token_cache s)) of
        Some _ \<Rightarrow> cache_cleanup (t_cleanup w) (token_cache s) k
      | None \<Rightarrow>
         (if k \<noteq> token then cache_cleanup (t_cleanup w) (token_cache s) k
          else case reply w of
                 HTTPError \<Rightarrow> cache_cleanup (t_cleanup w) (token_cache s) k
               | Response status_code body \<Rightarrow>
                  if status_code = 200
                  then (case body of
                          None \<Rightarrow> cache_cleanup (t_cleanup w) (token_cache s) k
                        | Some payload \<Rightarrow> Some (payload, t_insert w + TOKEN_CACHE_TTL_SECONDS))
                  else None))"
  by (simp add: verify_token_def Let_def split: option.splits upstream.splits)

lemma verify_token_result:
  "fst (verify_token w token s) =
     (case cache_hit w token (cache_cleanup (t_cleanup w) (token_cache s)) of
        Some payload \<Rightarrow> Inr payload
      | None \<Rightarrow>
         (case reply w of
            HTTPError \<Rightarrow> Inr JNull
          | Response status_code body \<Rightarrow>
             if status_code = 200
             then (case body of None \<Rightarrow> Inl JSONDecodeError | Some payload \<Rightarrow> Inr payload)
             else Inr JNull))"
  by (simp add: verify_token_def Let_def split: option.splits upstream.splits)

lemma verify_token_keeps:
  assumes "token_cache s token = Some (p, e)" "t_cleanup w < e" "k \<noteq> token \<or> t_check w < e"
  shows "token_cache (snd (verify_token w k s)) token = Some (p, e)"
  using assms
  by (auto simp: verify_token_cache cache_hit_cleanup cache_cleanup_apply split: option.splits)

lemma verify_token_other:
  assumes "k \<noteq> token" "token_cache s token = None \<or> token_cache s token = Some (p, e)"
  shows "token_cache (snd (verify_token w k s)) token = None
         \<or> token_cache (snd (verify_token w k s)) token = Some (p, e)"
  using assms
  by (auto simp: verify_token_cache cache_cleanup_apply split: option.splits)

lemma verify_token_miss_calls:
  assumes "token_cache s token = None \<or> (\<exists>p e. token_cache s token = Some (p, e) \<and> e \<le> t_check w)"
  shows "provider_calls (snd (verify_token w token s)) = provider_calls s @ [PostVerify token]"
  using assms by (auto simp: verify_token_calls cache_hit_cleanup)

lemma consulted_miss:
  assumes "provider_calls (snd (verify_token w token s)) = provider_calls s @ [PostVerify token]"
  shows "cache_hit w token (cache_cleanup (t_cleanup w) (token_cache s)) = None"
  using assms by (auto simp: verify_token_calls split: option.splits)

subsection \<open>Many verifications\<close>

lemma verify_many_append:
  "verify_many (xs @ ys) s = verify_many ys (verify_many xs s)"
  by (induction xs arbitrary: s) auto


lemma verify_many_other:
  assumes "token_cache s token = None \<or> token_cache s token = Some (p, e)"
    and "\<forall>(w, k) \<in> set calls. k \<noteq> token"
  shows "token_cache (verify_many calls s) token = None
         \<or> token_cache (verify_many calls s) token = Some (p, e)"
  using assms
proof (induction calls arbitrary: s)
  case Nil
  then show ?case by simp
next
  case (Cons c calls)
  obtain w k where c: "c = (w, k)" by (cases c)
  from Cons.prems c have "k \<noteq> token" by auto
  then have "token_cache (snd (verify_token w k s)) token = None
        \<or> token_cache (snd (verify_token w k s)) token = Some (p, e)"
    using Cons.prems(1) by (rule verify_token_other)
  with Cons.IH Cons.prems(2) c show ?case by simp
qed


subsection \<open>Where cache entries come from\<close>

lemma validated_by_mono: "validated_by hist k p e \<Longrightarrow> validated_by (hist @ rest) k p e"
  by (auto simp: validated_by_def)

lemma verify_token_validated:
  assumes "\<forall>k p e. token_cache s k = Some (p, e) \<longrightarrow> validated_by hist k p e"
    and "token_cache (snd (verify_token w token s)) k = Some (p, e)"
  shows "validated_by (hist @ [(w, token)]) k p e"
proof (cases "token_cache s k = Some (p, e)")
  case True
  with assms(1) show ?thesis by (simp add: validated_by_mono)
next
  case False
  with assms(2) have "k = token \<and> reply w = Response 200 (Some p)
      \<and> e = t_insert w + TOKEN_CACHE_TTL_SECONDS"
    by (auto simp: verify_token_cache cache_cleanup_apply
        split: option.splits if_splits upstream.splits)
  then show ?thesis by (auto simp: validated_by_def)
qed

lemma verify_many_validated:
  assumes "\<forall>k p e. token_cache s k = Some (p, e) \<longrightarrow> validated_by hist k p e"
  shows "\<forall>k p e. token_cache (verify_many calls s) k = Some (p, e)
            \<longrightarrow> validated_by (hist @ calls) k p e"
  using assms
proof (induction calls arbitrary: s hist)
  case Nil
  then show ?case by simp
next
  case (Cons c calls)
  obtain w token where c: "c = (w, token)" by (cases c)
  have "\<forall>k p e. token_cache (snd (verify_token w token s)) k = Some (p, e)
          \<longrightarrow> validated_by (hist @ [(w, token)]) k p e"
    using Cons.prems verify_token_validated by blast
  from Cons.IH [OF this] c show ?case by simp
qed

lemma verify_token_served:
  assumes "provider_calls (snd (verify_token w token s)) = provider_calls s"
  shows "\<exists>p e. token_cache s token = Some (p, e) \<and> t_check w < e
           \<and> fst (verify_token w token s) = Inr p"
  using assms
  by (auto simp: verify_token_calls verify_token_result cache_hit_cleanup
      split: option.splits if_splits)

lemma verify_token_swept:
  assumes "t_cleanup w \<le> t_insert w" "token_cache (snd (verify_token w token s)) k = Some (p, e)"
  shows "t_cleanup w < e"
  using assms
  by (auto simp: verify_token_cache cache_cleanup_apply TOKEN_CACHE_TTL_SECONDS_def
      split: option.splits if_splits upstream.splits)

lemma dispatch_state:
  "snd (dispatch cfg w req s) = s
   \<or> (\<exists>token. extract_token req = Some token \<and> snd (dispatch cfg w req s) = snd (verify_token w token s))"
  by (auto simp: dispatch_def split: option.splits prod.splits sum.splits json.splits)

lemma two_verified_tok1:
  "token_cache (verify_many two_verified empty_state) ''tok1'' = Some (alice, 300)"
  by (simp add: two_verified_def verify_token_cache cache_hit_def cache_cleanup_apply
      empty_state_def world_at_def TOKEN_CACHE_TTL_SECONDS_def)

subsection \<open>The Bearer scheme\<close>

lemma prefix_take: "prefix p s = (take (length p) s = p)"
  by (metis append_eq_conv_conj prefix_def take_is_prefix)

lemma prefix_map_take: "prefix p (map f h) = (map f (take (length p) h) = p)"
  by (simp add: prefix_take take_map)

lemma bearer_prefix: "prefix ''bearer '' (py_lower h) = (py_lower (take 7 h) = ''bearer '')"
proof -
  have "length ''bearer '' = 7" by simp
  with prefix_map_take [of "''bearer ''" lower_char h] show ?thesis
    unfolding py_lower_def by presburger
qed

subsection \<open>The middleware's branches\<close>

lemma private_not_public: "\<not> is_public_path ''/api/private''"
  by (simp add: is_public_path_def UNAUTHENTICATED_EXACT_PATHS_def
      UNAUTHENTICATED_PATH_PREFIXES_def)

lemma message_names_cookie_and_header:
  "sublist SSO_COOKIE_NAME authentication_required_message
   \<and> sublist ''Authorization: Bearer'' authentication_required_message"
  unfolding authentication_required_message_def SSO_COOKIE_NAME_def
    py_contains_sublist [symmetric] by simp

lemma unauthenticated_response_eq:
  assumes "url req \<noteq> []"
  shows "unauthenticated_response cfg req =
     (if sublist ''text/html'' (case headers req ''accept'' of None \<Rightarrow> [] | Some a \<Rightarrow> a)
      then RedirectResponse
             (SSO_ISSUER cfg @ ''/authorize?''
                @ urlencode [(''response_type'', ''code''),
                             (''client_id'', SSO_CLIENT_ID cfg),
                             (''redirect_uri'', SSO_CALLBACK_URL cfg),
                             (''scope'', ''openid profile email''),
                             (''state'', url req)])
             302 []
      else JSONResponse 401
             (JObj [(''error'', JStr ''authentication_required''),
                    (''message'', JStr authentication_required_message)]))"
  using assms
  by (simp add: unauthenticated_response_def is_browser_request_def build_sso_login_url_def
      py_contains_sublist Let_def)

lemma dispatch_no_token:
  assumes "\<not> is_public_path (path req)" "extract_token req = None"
  shows "dispatch cfg w req s = (Inr (unauthenticated_response cfg req), s)"
  using assms by (simp add: dispatch_def)

lemma dispatch_token:
  assumes "\<not> is_public_path (path req)" "extract_token req = Some token"
  shows "dispatch cfg w req s =
     (case verify_token w token s of
        (Inl e, s') \<Rightarrow> (Inl e, s')
      | (Inr JNull, s') \<Rightarrow> (Inr (unauthenticated_response cfg req), s')
      | (Inr (JObj user_payload), s') \<Rightarrow>
          (Inr (CallNext (req\<lparr>sso_user := Some
                  [(''sub'', dict_get user_payload ''sub'' (JStr [])),
                   (''name'', dict_get user_payload ''name'' (JStr [])),
                   (''role'', dict_get user_payload ''role'' (JStr [])),
                   (''email'', dict_get user_payload ''email'' (JStr []))]\<rparr>)), s')
      | (Inr _, s') \<Rightarrow> (Inl AttributeError, s'))"
  using assms by (simp add: dispatch_def)

lemma dispatch_rejected:
  assumes "\<not> is_public_path (path req)" "extract_token req = Some token"
    and "fst (verify_token w token s) = Inr JNull"
  shows "fst (dispatch cfg w req s) = Inr (unauthenticated_response cfg req)"
proof -
  obtain r s' where rs: "verify_token w token s = (r, s')" by (cases "verify_token w token s")
  with assms(3) have "r = Inr JNull" by simp
  with assms(1,2) rs show ?thesis by (simp add: dispatch_token)
qed

subsection \<open>Blank tokens, upstream failures\<close>

lemma py_strip_blank:
  assumes "\<forall>c \<in> set ws. py_isspace c"
  shows "py_strip ws = []"
  using assms by (auto simp: py_strip_def dest: set_dropWhileD)

lemma dispatch_token_state:
  assumes "\<not> is_public_path (path req)" "extract_token req = Some token"
  shows "snd (dispatch cfg w req s) = snd (verify_token w token s)"
  using assms
  by (simp add: dispatch_token split: prod.splits sum.splits json.splits)

lemma verification_failure_unauthenticated:
  assumes "\<not> is_public_path (path req)" "extract_token req = Some token"
    and "provider_calls (snd (verify_token w token s)) = provider_calls s @ [PostVerify token]"
    and "reply w = HTTPError \<or> (\<exists>status_code body. reply w = Response status_code body \<and> status_code \<noteq> 200)"
  shows "fst (dispatch cfg w req s) = Inr (unauthenticated_response cfg req)"
proof -
  have miss: "cache_hit w token (cache_cleanup (t_cleanup w) (token_cache s)) = None"
    using assms(3) by (rule consulted_miss)
  with assms(4) have "fst (verify_token w token s) = Inr JNull"
    by (auto simp: verify_token_result)
  with assms(1,2) show ?thesis by (rule dispatch_rejected)
qed

lemma callback_failures:
  assumes "str_truthy (query_params req ''code'')"
  shows "fst (sso_callback cfg HTTPError req s) =
           Inr (JSONResponse 502
                  (JObj [(''error'', JStr ''sso_unavailable''),
                         (''message'', JStr ''Unable to reach SSO server.'')]))"
    and "status_code \<noteq> 200 \<Longrightarrow>
         fst (sso_callback cfg (Response status_code body) req s) =
           Inr (JSONResponse 401
                  (JObj [(''error'', JStr ''token_exchange_failed''),
                         (''message'', JStr ''SSO token exchange failed.'')]))"
  using assms by (simp_all add: sso_callback_def)

section \<open>The claims\<close>

text \<open>
  Claim C2. A request whose path is public (it equals a member of the exact-match set or
  starts with a member of the prefix list) is passed downstream unchanged, whatever
  cookies and headers it carries and whatever the environment would answer; the state
  comes back as it was, so the cache was not consulted (no cleanup ran) and no call went
  to the identity provider.
\<close>

theorem public_path_admitted:
  assumes "path req \<in> UNAUTHENTICATED_EXACT_PATHS
           \<or> (\<exists>pre \<in> set UNAUTHENTICATED_PATH_PREFIXES. prefix pre (path req))"
  shows "dispatch cfg w req s = (Inr (CallNext req), s)"
  using assms by (simp add: dispatch_def is_public_path_iff)

theorem public_path_admitted_witness:
  "extract_token no_credentials = None
   \<and> dispatch default_config (world_at 0 HTTPError) no_credentials empty_state
      = (Inr (CallNext no_credentials), empty_state)"
proof -
  have h: "path no_credentials \<in> UNAUTHENTICATED_EXACT_PATHS
     \<or> (\<exists>pre \<in> set UNAUTHENTICATED_PATH_PREFIXES. prefix pre (path no_credentials))"
    by (simp add: no_credentials_def UNAUTHENTICATED_PATH_PREFIXES_def)
  have e: "extract_token no_credentials = None"
    by (simp add: no_credentials_def extract_token_def py_lower_def)
  show ?thesis using e public_path_admitted [OF h] by simp
qed



text \<open>
  Claim C5. The cache invariant. (1) Starting from the empty cache, after any sequence
  of verifications every entry of the cache was inserted by a call for its token that
  received 200 from the identity provider, with the payload of that response and with
  expiry equal to the insertion time plus 300 seconds. (2) A call answered from the
  cache (no request goes to the provider) returns the payload of an entry whose expiry
  is later than the time read at the expiry test. (3) After a call no entry is left whose
  expiry is at or before the time its cleanup read (the clock being monotonic within the
  call). (4) An entry of another token that has not expired at the cleanup stays as it
  is. (5) The middleware changes the state only through \<open>verify_token\<close>: there is no
  other sweep.
\<close>

theorem cache_invariant:
  "(token_cache s0 = Map.empty \<and> token_cache (verify_many calls s0) k = Some (p, e) \<longrightarrow>
      (\<exists>w. (w, k) \<in> set calls \<and> reply w = Response 200 (Some p) \<and> e = t_insert w + 300))
   \<and> (provider_calls (snd (verify_token w token s)) = provider_calls s \<longrightarrow>
        (\<exists>p' e'. token_cache s token = Some (p', e') \<and> t_check w < e'
            \<and> fst (verify_token w token s) = Inr p'))
   \<and> (t_cleanup w \<le> t_insert w \<and> token_cache (snd (verify_token w token s)) k = Some (p, e) \<longrightarrow>
        t_cleanup w < e)
   \<and> (k \<noteq> token \<and> token_cache s k = Some (p, e) \<and> t_cleanup w < e \<longrightarrow>
        token_cache (snd (verify_token w token s)) k = Some (p, e))
   \<and> (snd (dispatch cfg w req s) = s
        \<or> (\<exists>tok. extract_token req = Some tok
              \<and> snd (dispatch cfg w req s) = snd (verify_token w tok s)))"
proof -
  have a: "\<exists>w. (w, k) \<in> set calls \<and> reply w = Response 200 (Some p) \<and> e = t_insert w + 300"
    if "token_cache s0 = Map.empty" "token_cache (verify_many calls s0) k = Some (p, e)"
  proof -
    from that(1) have "\<forall>k p e. token_cache s0 k = Some (p, e) \<longrightarrow> validated_by [] k p e"
      by simp
    from verify_many_validated [OF this, of calls] that(2)
    have "validated_by calls k p e" by simp
    then show ?thesis by (auto simp: validated_by_def TOKEN_CACHE_TTL_SECONDS_def)
  qed
  have b: "\<exists>p' e'. token_cache s token = Some (p', e') \<and> t_check w < e'
            \<and> fst (verify_token w token s) = Inr p'"
    if "provider_calls (snd (verify_token w token s)) = provider_calls s"
    using that by (rule verify_token_served)
  have c: "t_cleanup w < e"
    if "t_cleanup w \<le> t_insert w" "token_cache (snd (verify_token w token s)) k = Some (p, e)"
    using that by (rule verify_token_swept)
  have d: "token_cache (snd (verify_token w token s)) k = Some (p, e)"
    if "k \<noteq> token" "token_cache s k = Some (p, e)" "t_cleanup w < e"
    using that by (simp add: verify_token_keeps)
  from a b c d dispatch_state [of cfg w req s] show ?thesis by blast
qed

theorem cache_invariant_witness:
  "token_cache (verify_many two_verified empty_state) ''tok1'' = Some (alice, 300)
   \<and> (\<exists>w. (w, ''tok1'') \<in> set two_verified \<and> reply w = Response 200 (Some alice)
          \<and> (300::real) = t_insert w + 300)
   \<and> fst (verify_token (world_at 20 HTTPError) ''tok1'' (verify_many two_verified empty_state))
       = Inr alice
   \<and> token_cache (snd (verify_token (world_at 20 HTTPError) ''tok2''
        (verify_many two_verified empty_state))) ''tok1'' = Some (alice, 300)"
proof -
  let ?S = "verify_many two_verified empty_state"
  let ?w = "world_at 20 HTTPError"
  note e = two_verified_tok1
  have h0: "token_cache empty_state = Map.empty"
    by (simp add: empty_state_def)
  have h2: "provider_calls (snd (verify_token ?w ''tok1'' ?S)) = provider_calls ?S"
    using e by (simp add: verify_token_calls cache_hit_def cache_cleanup_apply world_at_def)
  have h3: "t_cleanup ?w \<le> t_insert ?w" "t_cleanup ?w < 300"
    by (simp_all add: world_at_def)
  have n: "''tok1'' \<noteq> ''tok2''" by simp
  from cache_invariant [of empty_state two_verified "''tok1''" alice 300 ?w "''tok1''" ?S] h0 e h2
  have a: "(\<exists>w. (w, ''tok1'') \<in> set two_verified \<and> reply w = Response 200 (Some alice)
          \<and> (300::real) = t_insert w + 300)
     \<and> fst (verify_token ?w ''tok1'' ?S) = Inr alice"
    by auto
  from cache_invariant [of empty_state two_verified "''tok1''" alice 300 ?w "''tok2''" ?S] e h3 n
  have b: "token_cache (snd (verify_token ?w ''tok2'' ?S)) ''tok1'' = Some (alice, 300)"
    by blast
  from e a b show ?thesis by blast
qed

text \<open>
  Claim C6. When a call of \<open>verify_token\<close> for a token reaches the identity provider and
  the answer has a status other than 200, the call returns \<open>None\<close> (unauthenticated) and
  the cache has no entry for the token afterwards, whether or not it had one before.
  After any calls for other tokens, the next call for the token sends a fresh request to
  the provider.
\<close>

theorem revoked_evicted:
  assumes reached:
      "provider_calls (snd (verify_token w token s)) = provider_calls s @ [PostVerify token]"
    and rejected: "reply w = Response status_code body" "status_code \<noteq> 200"
    and others: "\<forall>(w', k) \<in> set calls. k \<noteq> token"
  shows "fst (verify_token w token s) = Inr JNull
    \<and> token_cache (snd (verify_token w token s)) token = None
    \<and> provider_calls (snd (verify_token w' token (verify_many calls (snd (verify_token w token s)))))
       = provider_calls (verify_many calls (snd (verify_token w token s))) @ [PostVerify token]"
proof -
  let ?s1 = "snd (verify_token w token s)"
  have miss: "cache_hit w token (cache_cleanup (t_cleanup w) (token_cache s)) = None"
    using reached by (rule consulted_miss)
  have r: "fst (verify_token w token s) = Inr JNull"
    using miss rejected by (simp add: verify_token_result)
  have gone: "token_cache ?s1 token = None"
    using miss rejected by (simp add: verify_token_cache)
  then have "token_cache (verify_many calls ?s1) token = None"
    using verify_many_other [OF _ others, of ?s1 JNull 0]
      verify_many_other [OF _ others, of ?s1 JNull 1] by auto
  then have "provider_calls (snd (verify_token w' token (verify_many calls ?s1)))
       = provider_calls (verify_many calls ?s1) @ [PostVerify token]"
    by (intro verify_token_miss_calls) simp
  with r gone show ?thesis by simp
qed

theorem revoked_evicted_witness:
  "token_cache stale_state ''tok1'' = Some (alice, 100)
   \<and> fst (verify_token \<lparr> t_cleanup = 99, t_check = 100, t_insert = 101, reply = Response 401 None \<rparr>
        ''tok1'' stale_state) = Inr JNull
   \<and> token_cache (snd (verify_token
        \<lparr> t_cleanup = 99, t_check = 100, t_insert = 101, reply = Response 401 None \<rparr>
        ''tok1'' stale_state)) ''tok1'' = None
   \<and> provider_calls (snd (verify_token (world_at 102 HTTPError) ''tok1''
        (verify_many [(world_at 101 (Response 200 (Some alice)), ''tok2'')]
          (snd (verify_token
            \<lparr> t_cleanup = 99, t_check = 100, t_insert = 101, reply = Response 401 None \<rparr>
            ''tok1'' stale_state)))))
      = [PostVerify ''tok1'', PostVerify ''tok2'', PostVerify ''tok1'']"
proof -
  let ?w = "\<lparr> t_cleanup = 99, t_check = 100, t_insert = 101, reply = Response 401 None \<rparr>"
  let ?calls = "[(world_at 101 (Response 200 (Some alice)), ''tok2'')]"
  have e: "token_cache stale_state ''tok1'' = Some (alice, 100)"
    by (simp add: stale_state_def)
  have h1: "provider_calls (snd (verify_token ?w ''tok1'' stale_state))
            = provider_calls stale_state @ [PostVerify ''tok1'']"
    by (simp add: verify_token_calls cache_hit_def cache_cleanup_apply stale_state_def)
  have h2: "reply ?w = Response 401 None" "(401::int) \<noteq> 200"
    by simp_all
  have h3: "\<forall>(w', k) \<in> set ?calls. k \<noteq> ''tok1''"
    by simp
  have c: "provider_calls (verify_many ?calls (snd (verify_token ?w ''tok1'' stale_state)))
           = [PostVerify ''tok1'', PostVerify ''tok2'']"
    by (simp add: verify_token_calls verify_token_cache cache_hit_def cache_cleanup_apply
        stale_state_def world_at_def)
  show ?thesis
    using revoked_evicted [OF h1 h2 h3, of "world_at 102 HTTPError"] e c by simp
qed

text \<open>
  Claim C7, as stated, fails: a session cookie that is present with the empty value is
  passed over, and the Authorization header is consulted although the cookie is present.
  Here the cookie is present and empty, the header is \<open>Bearer abc\<close>, and the extractor
  returns \<open>abc\<close>, not the cookie's value.
\<close>

theorem empty_cookie_counterexample:
  "cookies empty_cookie_request SSO_COOKIE_NAME = Some ''''
   \<and> extract_token empty_cookie_request = Some ''abc''
   \<and> extract_token empty_cookie_request \<noteq> cookies empty_cookie_request SSO_COOKIE_NAME"
proof -
  have l: "py_lower ''Bearer abc'' = ''bearer abc''"
    unfolding py_lower_def by code_simp
  have s: "py_strip ''abc'' = ''abc''"
    by (simp add: py_strip_def py_isspace_def)
  show ?thesis
    by (simp add: empty_cookie_request_def extract_token_def l s)
qed

text \<open>
  Claim C7, amended. The extractor returns the session cookie's value whenever that
  cookie is present with a non-empty value. When the cookie is absent or empty, it
  consults the Authorization header: if the first seven characters of the header are
  \<open>bearer\<close> and a space, in any letter case, it returns the rest of the header with the
  white space at both ends removed; if the header is absent or does not start so, it
  returns absent. The result is always one of these: the two sources are never merged.
\<close>

theorem extract_token_priority:
  "(cookies req SSO_COOKIE_NAME = Some t \<and> t \<noteq> [] \<longrightarrow> extract_token req = Some t)
   \<and> ((cookies req SSO_COOKIE_NAME = None \<or> cookies req SSO_COOKIE_NAME = Some [])
        \<and> headers req ''authorization'' = Some h \<and> py_lower (take 7 h) = ''bearer ''
       \<longrightarrow> extract_token req = Some (py_strip (drop 7 h)))
   \<and> ((cookies req SSO_COOKIE_NAME = None \<or> cookies req SSO_COOKIE_NAME = Some [])
        \<and> (headers req ''authorization'' = None
            \<or> (headers req ''authorization'' = Some h \<and> py_lower (take 7 h) \<noteq> ''bearer ''))
       \<longrightarrow> extract_token req = None)"
proof -
  have nil: "py_lower [] \<noteq> ''bearer ''"
    by (simp add: py_lower_def)
  show ?thesis
    using nil by (auto simp: extract_token_def bearer_prefix)
qed

theorem extract_token_priority_witness:
  "extract_token cookie_and_bearer = Some ''tok1''
   \<and> extract_token bearer_only = Some ''abc''
   \<and> extract_token no_credentials = None"
proof -
  have c1: "cookies cookie_and_bearer SSO_COOKIE_NAME = Some ''tok1'' \<and> ''tok1'' \<noteq> []"
    by (simp add: cookie_and_bearer_def)
  have c2: "cookies bearer_only SSO_COOKIE_NAME = None"
    "headers bearer_only ''authorization'' = Some ''bEaReR  abc ''"
    by (simp_all add: bearer_only_def)
  have l: "py_lower (take 7 ''bEaReR  abc '') = ''bearer ''"
    unfolding py_lower_def by code_simp
  have s: "py_strip (drop 7 ''bEaReR  abc '') = ''abc''"
    by (simp add: py_strip_def py_isspace_def)
  have c3: "cookies no_credentials SSO_COOKIE_NAME = None"
    "headers no_credentials ''authorization'' = None"
    by (simp_all add: no_credentials_def)
  from extract_token_priority [of cookie_and_bearer "''tok1''"] c1
  have a: "extract_token cookie_and_bearer = Some ''tok1''" by blast
  from extract_token_priority [of bearer_only _ "''bEaReR  abc ''"] c2 l s
  have b: "extract_token bearer_only = Some ''abc''" by simp
  from extract_token_priority [of no_credentials] c3
  have c: "extract_token no_credentials = None" by blast
  from a b c show ?thesis by blast
qed

text \<open>
  Claim C3. On a protected path (one that is not public), when no credential can be
  extracted or \<open>verify_token\<close> returns \<open>None\<close> for the extracted one, the middleware
  answers as follows. If the Accept header contains \<open>text/html\<close>: a 302 redirect to the
  issuer's \<open>/authorize\<close> with the query \<open>response_type=code\<close>, \<open>client_id\<close>,
  \<open>redirect_uri\<close>, \<open>scope=openid profile email\<close> and \<open>state\<close> equal to the requested
  URL, URL-encoded. Otherwise: a 401 whose JSON body has the error
  \<open>authentication_required\<close> and a message that names the session cookie and the
  \<open>Authorization: Bearer\<close> header. The URL of a request is never empty.
\<close>

theorem unauthenticated_redirect_or_401:
  assumes protected: "\<not> is_public_path (path req)"
    and full_url: "url req \<noteq> []"
    and fails: "extract_token req = None
       \<or> (\<exists>token. extract_token req = Some token \<and> fst (verify_token w token s) = Inr JNull)"
  shows "fst (dispatch cfg w req s) =
     Inr (if sublist ''text/html'' (case headers req ''accept'' of None \<Rightarrow> [] | Some a \<Rightarrow> a)
          then RedirectResponse
                 (SSO_ISSUER cfg @ ''/authorize?''
                    @ urlencode [(''response_type'', ''code''),
                                 (''client_id'', SSO_CLIENT_ID cfg),
                                 (''redirect_uri'', SSO_CALLBACK_URL cfg),
                                 (''scope'', ''openid profile email''),
                                 (''state'', url req)])
                 302 []
          else JSONResponse 401
                 (JObj [(''error'', JStr ''authentication_required''),
                        (''message'', JStr authentication_required_message)]))
     \<and> sublist SSO_COOKIE_NAME authentication_required_message
     \<and> sublist ''Authorization: Bearer'' authentication_required_message"
proof -
  from fails have "fst (dispatch cfg w req s) = Inr (unauthenticated_response cfg req)"
  proof
    assume "extract_token req = None"
    with protected show ?thesis by (simp add: dispatch_no_token)
  next
    assume "\<exists>token. extract_token req = Some token \<and> fst (verify_token w token s) = Inr JNull"
    with protected show ?thesis by (auto simp: dispatch_rejected)
  qed
  with unauthenticated_response_eq [OF full_url, of cfg] message_names_cookie_and_header
  show ?thesis by simp
qed

theorem unauthenticated_redirect_or_401_witness:
  "fst (dispatch default_config (world_at 0 HTTPError) browser_request empty_state)
     = Inr (RedirectResponse
         (''https://login.orcest.ai/authorize?response_type=code&client_id=maestrist''
          @ ''&redirect_uri=https%3A%2F%2Fagent.orcest.ai%2Fauth%2Fcallback''
          @ ''&scope=openid+profile+email''
          @ ''&state=https%3A%2F%2Fagent.orcest.ai%2Fapi%2Fprivate'') 302 [])
   \<and> fst (dispatch default_config (world_at 0 (Response 401 None)) api_request empty_state)
     = Inr (JSONResponse 401
         (JObj [(''error'', JStr ''authentication_required''),
                (''message'', JStr authentication_required_message)]))"
proof -
  have p1: "\<not> is_public_path (path browser_request)" "url browser_request \<noteq> []"
    by (simp_all add: browser_request_def private_not_public)
  have e1: "extract_token browser_request = None"
    by (simp add: browser_request_def extract_token_def py_lower_def)
  have a1: "sublist ''text/html'' (case headers browser_request ''accept'' of None \<Rightarrow> [] | Some a \<Rightarrow> a)"
    unfolding py_contains_sublist [symmetric] by (simp add: browser_request_def)
  have q: "urlencode [(''response_type'', ''code''),
                      (''client_id'', SSO_CLIENT_ID default_config),
                      (''redirect_uri'', SSO_CALLBACK_URL default_config),
                      (''scope'', ''openid profile email''),
                      (''state'', url browser_request)]
           = ''response_type=code&client_id=maestrist''
          @ ''&redirect_uri=https%3A%2F%2Fagent.orcest.ai%2Fauth%2Fcallback''
          @ ''&scope=openid+profile+email''
          @ ''&state=https%3A%2F%2Fagent.orcest.ai%2Fapi%2Fprivate''"
    unfolding default_config_def browser_request_def by code_simp
  have p2: "\<not> is_public_path (path api_request)" "url api_request \<noteq> []"
    by (simp_all add: api_request_def private_not_public)
  have e2: "extract_token api_request = Some ''tok1''"
    by (simp add: api_request_def extract_token_def)
  have v2: "fst (verify_token (world_at 0 (Response 401 None)) ''tok1'' empty_state) = Inr JNull"
    by (simp add: verify_token_result cache_hit_def cache_cleanup_apply empty_state_def world_at_def)
  have a2: "\<not> sublist ''text/html'' (case headers api_request ''accept'' of None \<Rightarrow> [] | Some a \<Rightarrow> a)"
    unfolding py_contains_sublist [symmetric] by (simp add: api_request_def)
  from unauthenticated_redirect_or_401 [of browser_request "world_at 0 HTTPError" empty_state default_config]
    p1 e1 a1 q
  have r1: "fst (dispatch default_config (world_at 0 HTTPError) browser_request empty_state)
     = Inr (RedirectResponse
         (''https://login.orcest.ai/authorize?response_type=code&client_id=maestrist''
          @ ''&redirect_uri=https%3A%2F%2Fagent.orcest.ai%2Fauth%2Fcallback''
          @ ''&scope=openid+profile+email''
          @ ''&state=https%3A%2F%2Fagent.orcest.ai%2Fapi%2Fprivate'') 302 [])"
    by (simp add: default_config_def)
  from unauthenticated_redirect_or_401 [of api_request "world_at 0 (Response 401 None)" empty_state default_config]
    p2 e2 v2 a2
  have r2: "fst (dispatch default_config (world_at 0 (Response 401 None)) api_request empty_state)
     = Inr (JSONResponse 401
         (JObj [(''error'', JStr ''authentication_required''),
                (''message'', JStr authentication_required_message)]))"
    by simp
  from r1 r2 show ?thesis by blast
qed

text \<open>
  Claim C9. On a protected path, when the verification request for the extracted token
  reaches the identity provider and the answer is 200 with a JSON object, the request
  is passed downstream with \<open>sso_user\<close> set to exactly the four fields \<open>sub\<close>,
  \<open>name\<close>, \<open>role\<close>, \<open>email\<close>, each the payload's value for that key when the payload
  has the key and the empty string otherwise. Nothing else of the payload is checked:
  a payload without \<open>sub\<close> is admitted with an empty subject.
\<close>

theorem verified_identity_attached:
  assumes protected: "\<not> is_public_path (path req)"
    and token: "extract_token req = Some token"
    and reached:
      "provider_calls (snd (verify_token w token s)) = provider_calls s @ [PostVerify token]"
    and ok: "reply w = Response 200 (Some (JObj payload))"
  shows "fst (dispatch cfg w req s) =
     Inr (CallNext (req\<lparr>sso_user := Some
       [(''sub'', case map_of payload ''sub'' of Some v \<Rightarrow> v | None \<Rightarrow> JStr ''''),
        (''name'', case map_of payload ''name'' of Some v \<Rightarrow> v | None \<Rightarrow> JStr ''''),
        (''role'', case map_of payload ''role'' of Some v \<Rightarrow> v | None \<Rightarrow> JStr ''''),
        (''email'', case map_of payload ''email'' of Some v \<Rightarrow> v | None \<Rightarrow> JStr '''')]\<rparr>))"
proof -
  have miss: "cache_hit w token (cache_cleanup (t_cleanup w) (token_cache s)) = None"
    using reached by (rule consulted_miss)
  have r: "fst (verify_token w token s) = Inr (JObj payload)"
    using miss ok by (simp add: verify_token_result)
  obtain x s' where xs: "verify_token w token s = (x, s')" by (cases "verify_token w token s")
  with r have "x = Inr (JObj payload)" by simp
  with protected token xs show ?thesis
    by (simp add: dispatch_token dict_get_def split: option.splits)
qed

theorem verified_identity_attached_witness:
  "fst (dispatch default_config (world_at 0 (Response 200 (Some (JObj bob_without_sub))))
          api_request empty_state)
   = Inr (CallNext (api_request\<lparr>sso_user := Some
       [(''sub'', JStr ''''), (''name'', JStr ''Bob''), (''role'', JStr ''user''),
        (''email'', JStr '''')]\<rparr>))"
proof -
  let ?w = "world_at 0 (Response 200 (Some (JObj bob_without_sub)))"
  have p: "\<not> is_public_path (path api_request)"
    by (simp add: api_request_def private_not_public)
  have e: "extract_token api_request = Some ''tok1''"
    by (simp add: api_request_def extract_token_def)
  have h: "provider_calls (snd (verify_token ?w ''tok1'' empty_state))
           = provider_calls empty_state @ [PostVerify ''tok1'']"
    by (simp add: verify_token_calls cache_hit_def cache_cleanup_apply empty_state_def)
  have k: "reply ?w = Response 200 (Some (JObj bob_without_sub))"
    by (simp add: world_at_def)
  show ?thesis
    using verified_identity_attached [OF p e h k, of default_config]
    by (simp add: bob_without_sub_def)
qed

text \<open>
  Claim C10. Let a request have no session cookie and an Authorization header made of
  \<open>bearer\<close> and a space (in any letter case) followed only by white space. Then the
  extractor returns the empty string, not absent. On a protected path the middleware
  therefore runs \<open>verify_token\<close> on the empty token: its state is the one
  \<open>verify_token\<close> leaves, a verification request with the empty token goes to the
  provider (unless an unexpired cache entry for the empty token answers), and when the
  verification yields a JSON object the request is admitted, which the
  missing-credential branch never does.
\<close>

theorem blank_bearer_verified:
  assumes no_cookie: "cookies req SSO_COOKIE_NAME = None"
    and header: "headers req ''authorization'' = Some (scheme @ ws)"
    and scheme: "py_lower scheme = ''bearer ''"
    and blank: "\<forall>c \<in> set ws. py_isspace c"
  shows "extract_token req = Some []
    \<and> (\<not> is_public_path (path req) \<longrightarrow>
         snd (dispatch cfg w req s) = snd (verify_token w [] s)
         \<and> (cache_hit w [] (cache_cleanup (t_cleanup w) (token_cache s)) = None \<longrightarrow>
              provider_calls (snd (dispatch cfg w req s)) = provider_calls s @ [PostVerify []])
         \<and> (fst (verify_token w [] s) = Inr (JObj payload) \<longrightarrow>
              (\<exists>r. fst (dispatch cfg w req s) = Inr (CallNext r))))"
proof -
  from scheme have "length (map lower_char scheme) = length ''bearer ''"
    by (simp add: py_lower_def)
  then have len: "length scheme = 7" by simp
  have low: "py_lower (take 7 (scheme @ ws)) = ''bearer ''"
    using scheme len by simp
  have rest: "drop 7 (scheme @ ws) = ws"
    using len by simp
  from no_cookie header low rest blank
  have e: "extract_token req = Some []"
    by (simp add: extract_token_def bearer_prefix py_strip_blank)
  have d: "snd (dispatch cfg w req s) = snd (verify_token w [] s)
         \<and> (cache_hit w [] (cache_cleanup (t_cleanup w) (token_cache s)) = None \<longrightarrow>
              provider_calls (snd (dispatch cfg w req s)) = provider_calls s @ [PostVerify []])
         \<and> (fst (verify_token w [] s) = Inr (JObj payload) \<longrightarrow>
              (\<exists>r. fst (dispatch cfg w req s) = Inr (CallNext r)))"
    if p: "\<not> is_public_path (path req)"
  proof -
    have st: "snd (dispatch cfg w req s) = snd (verify_token w [] s)"
      using p e by (rule dispatch_token_state)
    have calls: "provider_calls (snd (dispatch cfg w req s)) = provider_calls s @ [PostVerify []]"
      if "cache_hit w [] (cache_cleanup (t_cleanup w) (token_cache s)) = None"
      using that st by (simp add: verify_token_calls)
    have adm: "\<exists>r. fst (dispatch cfg w req s) = Inr (CallNext r)"
      if v: "fst (verify_token w [] s) = Inr (JObj payload)"
    proof -
      obtain x s' where xs: "verify_token w [] s = (x, s')" by (cases "verify_token w [] s")
      with v have "x = Inr (JObj payload)" by simp
      with p e xs show ?thesis by (simp add: dispatch_token)
    qed
    from st calls adm show ?thesis by blast
  qed
  from e d show ?thesis by blast
qed

theorem blank_bearer_verified_witness:
  "extract_token blank_bearer = Some []
   \<and> provider_calls (snd (dispatch default_config (world_at 0 (Response 200 (Some alice)))
        blank_bearer empty_state)) = [PostVerify []]
   \<and> (\<exists>r. fst (dispatch default_config (world_at 0 (Response 200 (Some alice)))
        blank_bearer empty_state) = Inr (CallNext r))"
proof -
  let ?w = "world_at 0 (Response 200 (Some alice))"
  have c: "cookies blank_bearer SSO_COOKIE_NAME = None"
    by (simp add: blank_bearer_def)
  have h: "headers blank_bearer ''authorization'' = Some (''Bearer '' @ ''  '')"
    by (simp add: blank_bearer_def)
  have l: "py_lower ''Bearer '' = ''bearer ''"
    unfolding py_lower_def by code_simp
  have b: "\<forall>c \<in> set ''  ''. py_isspace c"
    by (simp add: py_isspace_def)
  have p: "\<not> is_public_path (path blank_bearer)"
    by (simp add: blank_bearer_def private_not_public)
  have m: "cache_hit ?w [] (cache_cleanup (t_cleanup ?w) (token_cache empty_state)) = None"
    by (simp add: cache_hit_def cache_cleanup_apply empty_state_def)
  have v: "fst (verify_token ?w [] empty_state)
           = Inr (JObj [(''sub'', JStr ''u-1''), (''name'', JStr ''Alice''),
                        (''role'', JStr ''admin''), (''email'', JStr ''alice@example.org'')])"
    by (simp add: verify_token_result cache_hit_def cache_cleanup_apply empty_state_def
        world_at_def alice_def)
  have e: "provider_calls empty_state = []"
    by (simp add: empty_state_def)
  note t = blank_bearer_verified [OF c h l b, of default_config ?w empty_state
      "[(''sub'', JStr ''u-1''), (''name'', JStr ''Alice''),
        (''role'', JStr ''admin''), (''email'', JStr ''alice@example.org'')]"]
  from t have x1: "extract_token blank_bearer = Some []" by blast
  from t p m have x2: "provider_calls (snd (dispatch default_config ?w blank_bearer empty_state))
      = provider_calls empty_state @ [PostVerify []]" by blast
  from t p v have x3: "\<exists>r. fst (dispatch default_config ?w blank_bearer empty_state)
      = Inr (CallNext r)" by blast
  from x1 x2 x3 e show ?thesis by simp
qed




text \<open>
  Claim C1 does not hold of the code: when the identity provider answers 200 with a
  body that is not valid JSON, \<open>resp.json()\<close> raises \<open>json.JSONDecodeError\<close>, which is
  not an \<open>httpx.HTTPError\<close>; nothing catches it, in the middleware or in the callback
  handler. (The lemmas \<open>verification_failure_unauthenticated\<close> and \<open>callback_failures\<close>
  cover the outcomes that are handled.)
\<close>

theorem invalid_json_escapes:
  "fst (dispatch default_config (world_at 0 (Response 200 None)) api_request empty_state)
     = Inl JSONDecodeError
   \<and> fst (sso_callback default_config (Response 200 None) callback_request empty_state)
     = Inl JSONDecodeError"
proof -
  have p: "\<not> is_public_path (path api_request)"
    by (simp add: api_request_def private_not_public)
  have e: "extract_token api_request = Some ''tok1''"
    by (simp add: api_request_def extract_token_def)
  have v: "verify_token (world_at 0 (Response 200 None)) ''tok1'' empty_state
           = (Inl JSONDecodeError,
              empty_state\<lparr>token_cache := cache_cleanup 0 (token_cache empty_state),
                          provider_calls := [PostVerify ''tok1'']\<rparr>)"
    by (simp add: verify_token_def cache_hit_def cache_cleanup_apply empty_state_def world_at_def)
  have a: "fst (dispatch default_config (world_at 0 (Response 200 None)) api_request empty_state)
     = Inl JSONDecodeError"
    using p e v by (simp add: dispatch_token)
  have b: "fst (sso_callback default_config (Response 200 None) callback_request empty_state)
     = Inl JSONDecodeError"
    by (simp add: sso_callback_def callback_request_def)
  from a b show ?thesis by blast
qed

end
